theory Spec2Isabelle
  imports Complex_Main
begin

section \<open>Python values, dictionaries and exceptions\<close>

text \<open>
  The handler of \<^verbatim>\<open>app.py\<close> moves Python values between the request, two
  parameter dictionaries and the mapping returned by the primer-design library. The
  values are modelled by one datatype. A \<^verbatim>\<open>float\<close> is a \<open>real\<close>: the handler
  does no arithmetic on floats, it only stores and copies them. A \<^verbatim>\<open>str\<close> is a
  \<open>string\<close>, one list element for each character that \<^verbatim>\<open>len\<close> counts.
  Dictionaries have string keys and keep the order in which the keys were written.
\<close>

datatype pyval =
    PNone
  | PBool bool
  | PInt int
  | PFloat real
  | PStr string
  | PTuple "pyval list"
  | PList "pyval list"
  | PDict "(string \<times> pyval) list"

type_synonym pydict = "(string \<times> pyval) list"

text \<open>
  The exceptions that can leave the handler. \<open>ValueError\<close> carries its message and
  \<open>KeyError\<close> the key that was missing. \<open>ValidationError\<close> is what the construction
  of a typed model object raises on a field of the wrong type. \<open>OtherError\<close> stands for
  any further exception class that the external routine may raise.
\<close>

datatype error =
    ValueError string
  | KeyError pyval
  | IndexError
  | TypeError
  | ValidationError
  | OtherError string

text \<open>Sequencing of statements that may raise: the first exception ends the run.\<close>

definition and_then :: "error + 'a \<Rightarrow> ('a \<Rightarrow> error + 'b) \<Rightarrow> error + 'b" where
  "and_then r f = (case r of Inl e \<Rightarrow> Inl e | Inr x \<Rightarrow> f x)"

text \<open>\<^verbatim>\<open>d[k]\<close> on a dictionary with a string key.\<close>

definition getitem :: "pydict \<Rightarrow> string \<Rightarrow> error + pyval" where
  "getitem d k = (case map_of d k of None \<Rightarrow> Inl (KeyError (PStr k)) | Some v \<Rightarrow> Inr v)"

text \<open>
  \<^verbatim>\<open>v[i]\<close> for the literal indices \<^verbatim>\<open>0\<close> and \<^verbatim>\<open>1\<close> of the source: tuples, lists and
  strings are indexed (out of range raises), a dictionary with string keys has no
  integer key, and the other values are not subscriptable.
\<close>

fun subscript :: "pyval \<Rightarrow> nat \<Rightarrow> error + pyval" where
  "subscript (PTuple xs) i = (if i < length xs then Inr (xs ! i) else Inl IndexError)"
| "subscript (PList xs) i = (if i < length xs then Inr (xs ! i) else Inl IndexError)"
| "subscript (PStr s) i = (if i < length s then Inr (PStr [s ! i]) else Inl IndexError)"
| "subscript (PDict d) i = Inl (KeyError (PInt (int i)))"
| "subscript PNone i = Inl TypeError"
| "subscript (PBool b) i = Inl TypeError"
| "subscript (PInt n) i = Inl TypeError"
| "subscript (PFloat x) i = Inl TypeError"

text \<open>
  \<^verbatim>\<open>range(v)\<close>: the argument must be an integer (\<^verbatim>\<open>bool\<close> is a subclass of
  \<^verbatim>\<open>int\<close>); the range is empty when it is not positive.
\<close>

fun range_stop :: "pyval \<Rightarrow> error + int" where
  "range_stop (PInt n) = Inr n"
| "range_stop (PBool b) = Inr (if b then 1 else 0)"
| "range_stop PNone = Inl TypeError"
| "range_stop (PFloat x) = Inl TypeError"
| "range_stop (PStr s) = Inl TypeError"
| "range_stop (PTuple xs) = Inl TypeError"
| "range_stop (PList xs) = Inl TypeError"
| "range_stop (PDict d) = Inl TypeError"

definition range_py :: "int \<Rightarrow> nat list" where
  "range_py n = [0..<nat n]"

text \<open>Decimal formatting of integers, as an f-string does it.\<close>

definition digit_char :: "nat \<Rightarrow> char" where
  "digit_char d = ''0123456789'' ! d"

fun str_nat :: "nat \<Rightarrow> string" where
  "str_nat n = (if n < 10 then [digit_char n] else str_nat (n div 10) @ [digit_char (n mod 10)])"

declare str_nat.simps [simp del]

definition str_int :: "int \<Rightarrow> string" where
  "str_int i = (if i < 0 then CHR ''-'' # str_nat (nat (- i)) else str_nat (nat i))"

section \<open>The data model of \<^verbatim>\<open>app.py\<close>\<close>

record PrimerDesignRequest =
  sequence :: string
  primer_length :: int
  gc_content :: real

text \<open>
  The fields \<^verbatim>\<open>sequence\<close> and \<^verbatim>\<open>length\<close> of \<^verbatim>\<open>PrimerDetail\<close> carry the suffix
  \<open>_pd\<close>: the first name is taken by the request, the second by lists.
\<close>

record PrimerDetail =
  sequence_pd :: string
  tm :: real
  gc_percent :: real
  penalty :: real
  start :: int
  length_pd :: int

record PrimerResponse =
  left_primer :: PrimerDetail
  right_primer :: PrimerDetail
  internal_primers :: "PrimerDetail list"

text \<open>
  \<^verbatim>\<open>PrimerDetail\<close> is a typed model class of the validation library, which is not part
  of the repository: constructing an object converts each argument to the type of its
  field or raises. The three conversions are a parameter of the model, so that every
  result below holds for whatever the installed version accepts.
\<close>

record field_validation =
  validate_str :: "pyval \<Rightarrow> string option"
  validate_float :: "pyval \<Rightarrow> real option"
  validate_int :: "pyval \<Rightarrow> int option"

definition validated :: "'a option \<Rightarrow> ('a \<Rightarrow> error + 'b) \<Rightarrow> error + 'b" where
  "validated r f = (case r of None \<Rightarrow> Inl ValidationError | Some x \<Rightarrow> f x)"

definition PrimerDetail_init ::
  "field_validation \<Rightarrow> pyval \<Rightarrow> pyval \<Rightarrow> pyval \<Rightarrow> pyval \<Rightarrow> pyval \<Rightarrow> pyval \<Rightarrow> error + PrimerDetail" where
  "PrimerDetail_init V s t g p st len =
     validated (validate_str V s) (\<lambda>s'.
     validated (validate_float V t) (\<lambda>t'.
     validated (validate_float V g) (\<lambda>g'.
     validated (validate_float V p) (\<lambda>p'.
     validated (validate_int V st) (\<lambda>st'.
     validated (validate_int V len) (\<lambda>len'.
       Inr \<lparr>sequence_pd = s', tm = t', gc_percent = g', penalty = p',
            start = st', length_pd = len'\<rparr>))))))"

text \<open>
  The conversions every version of the validation library shares on values that already
  have the type of the field, with an integer accepted where a float is expected. They
  serve as the concrete instance in the examples.
\<close>

fun exact_str :: "pyval \<Rightarrow> string option" where
  "exact_str (PStr s) = Some s"
| "exact_str v = None"

fun exact_float :: "pyval \<Rightarrow> real option" where
  "exact_float (PFloat x) = Some x"
| "exact_float (PInt n) = Some (of_int n)"
| "exact_float v = None"

fun exact_int :: "pyval \<Rightarrow> int option" where
  "exact_int (PInt n) = Some n"
| "exact_int v = None"

definition exact_validation :: field_validation where
  "exact_validation =
     \<lparr>validate_str = exact_str, validate_float = exact_float, validate_int = exact_int\<rparr>"

section \<open>The handler \<^verbatim>\<open>design_primer\<close>\<close>

text \<open>
  The external routine \<^verbatim>\<open>primer3.bindings.designPrimers\<close> is a black box. All that
  lies outside the handler and that a call may read or change (what the library keeps
  between calls, the process around it) is a world of an arbitrary type \<open>'w\<close>. A call
  takes the two argument dictionaries and the world before it; it gives the mapping it
  returns or the exception it raises, together with the world after it.
\<close>

type_synonym 'w routine = "pydict \<Rightarrow> pydict \<Rightarrow> 'w \<Rightarrow> (error + pydict) \<times> 'w"

text \<open>A routine whose answer is a function of its two arguments alone.\<close>

type_synonym library = "pydict \<Rightarrow> pydict \<Rightarrow> error + pydict"

text \<open>Lines 57 and 58: the derived product size bounds.\<close>

definition min_product_size :: "PrimerDesignRequest \<Rightarrow> int" where
  "min_product_size request = max (primer_length request * 2) 50"

definition max_product_size :: "PrimerDesignRequest \<Rightarrow> int" where
  "max_product_size request = int (length (sequence request))"

text \<open>Line 61: the message of the value error.\<close>

definition too_short_message :: "int \<Rightarrow> int \<Rightarrow> string" where
  "too_short_message sequence_length primer_len =
     ''The sequence length '' @ str_int sequence_length
       @ '' is too short for the requested primer length '' @ str_int primer_len @ ''.''"

text \<open>Line 64.\<close>

definition product_size_range :: "PrimerDesignRequest \<Rightarrow> pyval" where
  "product_size_range request =
     PList [PTuple [PInt (min_product_size request), PInt (max_product_size request)]]"

text \<open>Lines 67 to 76: the first argument of the call.\<close>

definition primer_design_input :: "PrimerDesignRequest \<Rightarrow> pydict" where
  "primer_design_input request =
     [(''SEQUENCE_TEMPLATE'', PStr (sequence request)),
      (''SEQUENCE_INCLUDED_REGION'', PTuple [PInt 0, PInt (int (length (sequence request)))]),
      (''PRIMER_OPT_GC_PERCENT'', PFloat (gc_content request)),
      (''PRIMER_OPT_SIZE'', PInt (primer_length request)),
      (''PRIMER_MIN_SIZE'', PInt (primer_length request - 2)),
      (''PRIMER_MAX_SIZE'', PInt (primer_length request + 2)),
      (''PRIMER_PRODUCT_SIZE_RANGE'', product_size_range request),
      (''PRIMER_NUM_RETURN'', PInt 1)]"

text \<open>Lines 81 to 88: the second argument of the call.\<close>

definition override_input :: "PrimerDesignRequest \<Rightarrow> pydict" where
  "override_input request =
     [(''PRIMER_OPT_SIZE'', PInt (primer_length request)),
      (''PRIMER_MIN_SIZE'', PInt (primer_length request)),
      (''PRIMER_MAX_SIZE'', PInt (primer_length request)),
      (''PRIMER_OPT_GC_PERCENT'', PFloat (gc_content request)),
      (''PRIMER_PRODUCT_SIZE_RANGE'', product_size_range request),
      (''PRIMER_NUM_RETURN'', PInt 1)]"

text \<open>Lines 105 to 112: the detail object of the internal oligo with index \<open>i\<close>.\<close>

definition internal_key :: "nat \<Rightarrow> string \<Rightarrow> string" where
  "internal_key i suffix = ''PRIMER_INTERNAL_'' @ str_nat i @ suffix"

definition internal_detail :: "field_validation \<Rightarrow> pydict \<Rightarrow> nat \<Rightarrow> error + PrimerDetail" where
  "internal_detail V primer_results i =
     and_then (getitem primer_results (internal_key i ''_SEQUENCE'')) (\<lambda>s.
     and_then (getitem primer_results (internal_key i ''_TM'')) (\<lambda>t.
     and_then (getitem primer_results (internal_key i ''_GC_PERCENT'')) (\<lambda>g.
     and_then (getitem primer_results (internal_key i ''_PENALTY'')) (\<lambda>p.
     and_then (getitem primer_results (internal_key i '''')) (\<lambda>pos0.
     and_then (subscript pos0 0) (\<lambda>st.
     and_then (getitem primer_results (internal_key i '''')) (\<lambda>pos1.
     and_then (subscript pos1 1) (\<lambda>len.
       PrimerDetail_init V s t g p st len))))))))"

text \<open>Lines 102 to 113: the loop appends one detail object for each index.\<close>

fun internal_loop ::
  "field_validation \<Rightarrow> pydict \<Rightarrow> nat list \<Rightarrow> PrimerDetail list \<Rightarrow> error + PrimerDetail list" where
  "internal_loop V primer_results [] acc = Inr acc"
| "internal_loop V primer_results (i # rest) acc =
     and_then (internal_detail V primer_results i) (\<lambda>d.
       internal_loop V primer_results rest (acc @ [d]))"

text \<open>Lines 92 to 133: everything after the call, in the order of evaluation.\<close>

definition extract_response :: "field_validation \<Rightarrow> pydict \<Rightarrow> error + PrimerResponse" where
  "extract_response V primer_results =
     and_then (getitem primer_results ''PRIMER_LEFT_0_SEQUENCE'') (\<lambda>left_seq.
     and_then (getitem primer_results ''PRIMER_RIGHT_0_SEQUENCE'') (\<lambda>right_seq.
     and_then (getitem primer_results ''PRIMER_LEFT_0_TM'') (\<lambda>left_primer_tm.
     and_then (getitem primer_results ''PRIMER_RIGHT_0_TM'') (\<lambda>right_primer_tm.
     and_then (getitem primer_results ''PRIMER_LEFT_0_GC_PERCENT'') (\<lambda>left_primer_gc.
     and_then (getitem primer_results ''PRIMER_RIGHT_0_GC_PERCENT'') (\<lambda>right_primer_gc.
     and_then (getitem primer_results ''PRIMER_LEFT_0_PENALTY'') (\<lambda>left_primer_penalty.
     and_then (getitem primer_results ''PRIMER_RIGHT_0_PENALTY'') (\<lambda>right_primer_penalty.
     and_then (getitem primer_results ''PRIMER_INTERNAL_NUM_RETURNED'') (\<lambda>num.
     and_then (range_stop num) (\<lambda>n.
     and_then (internal_loop V primer_results (range_py n) []) (\<lambda>internals.
     and_then (getitem primer_results ''PRIMER_LEFT_0'') (\<lambda>l0.
     and_then (subscript l0 0) (\<lambda>left_start.
     and_then (getitem primer_results ''PRIMER_LEFT_0'') (\<lambda>l1.
     and_then (subscript l1 1) (\<lambda>left_length.
     and_then (PrimerDetail_init V left_seq left_primer_tm left_primer_gc
                 left_primer_penalty left_start left_length) (\<lambda>left_detail.
     and_then (getitem primer_results ''PRIMER_RIGHT_0'') (\<lambda>r0.
     and_then (subscript r0 0) (\<lambda>right_start.
     and_then (getitem primer_results ''PRIMER_RIGHT_0'') (\<lambda>r1.
     and_then (subscript r1 1) (\<lambda>right_length.
     and_then (PrimerDetail_init V right_seq right_primer_tm right_primer_gc
                 right_primer_penalty right_start right_length) (\<lambda>right_detail.
       Inr \<lparr>left_primer = left_detail, right_primer = right_detail,
            internal_primers = internals\<rparr>)))))))))))))))))))))"

text \<open>
  The handler, lines 48 to 133, as a transformer of the world. The guard of line 60 raises
  in the world as it was found. Past the guard the one call of line 79 is made, and the
  rest of the handler works on its reply in the world the call has left.
\<close>

definition design_primer_run ::
  "field_validation \<Rightarrow> 'w routine \<Rightarrow> PrimerDesignRequest \<Rightarrow> 'w
     \<Rightarrow> (error + PrimerResponse) \<times> 'w" where
  "design_primer_run V designPrimers request w =
     (let sequence_length = int (length (sequence request)) in
      if min_product_size request > max_product_size request
      then (Inl (ValueError (too_short_message sequence_length (primer_length request))), w)
      else (case designPrimers (primer_design_input request) (override_input request) w of
              (primer_results, w') \<Rightarrow> (and_then primer_results (extract_response V), w')))"

text \<open>
  Calls are counted from outside the handler. \<open>logged\<close> puts a list of calls in front
  of the world of a routine: each call of the logged routine appends its two arguments to
  the list and otherwise behaves as the routine does. The handler cannot write to the list,
  so what a run leaves there is what it has called.
\<close>

type_synonym call = "pydict \<times> pydict"

definition logged :: "'w routine \<Rightarrow> (call list \<times> 'w) routine" where
  "logged routine task override =
     (\<lambda>(calls, w). case routine task override w of
        (reply, w') \<Rightarrow> (reply, (calls @ [(task, override)], w')))"

definition stateless :: "library \<Rightarrow> unit routine" where
  "stateless lib task override w = (lib task override, w)"

text \<open>
  The handler run against a routine without state of its own, from an empty list of
  calls: the calls it has made and the exception raised or the response returned.
\<close>

definition design_primer ::
  "field_validation \<Rightarrow> library \<Rightarrow> PrimerDesignRequest
     \<Rightarrow> call list \<times> (error + PrimerResponse)" where
  "design_primer V designPrimers request =
     (case design_primer_run V (logged (stateless designPrimers)) request ([], ()) of
        (outcome, (calls, w)) \<Rightarrow> (calls, outcome))"

section \<open>Notions used in the statements\<close>

text \<open>
  What every version of the validation library does: a value that already has the type of
  the field is stored as it is.
\<close>

definition keeps_typed_values :: "field_validation \<Rightarrow> bool" where
  "keeps_typed_values V \<longleftrightarrow>
     (\<forall>s. validate_str V (PStr s) = Some s)
   \<and> (\<forall>x. validate_float V (PFloat x) = Some x)
   \<and> (\<forall>n. validate_int V (PInt n) = Some n)"




section \<open>Concrete runs\<close>

text \<open>
  A reply of the shape the library gives for one primer pair with two internal oligos, a
  routine that always gives it, and two requests: one ordinary, one with a negative primer
  length and a GC content of 250.
\<close>

definition example_results :: pydict where
  "example_results =
     [(''PRIMER_LEFT_0_SEQUENCE'', PStr ''GCTTGCATGCCTGCAGGTCG''),
      (''PRIMER_RIGHT_0_SEQUENCE'', PStr ''CTACTAGAGGGAAACATCTG''),
      (''PRIMER_LEFT_0_TM'', PFloat 62.5),
      (''PRIMER_RIGHT_0_TM'', PFloat 55),
      (''PRIMER_LEFT_0_GC_PERCENT'', PFloat 60),
      (''PRIMER_RIGHT_0_GC_PERCENT'', PFloat 45),
      (''PRIMER_LEFT_0_PENALTY'', PFloat 2.5),
      (''PRIMER_RIGHT_0_PENALTY'', PFloat 5),
      (''PRIMER_LEFT_0'', PTuple [PInt 0, PInt 20]),
      (''PRIMER_RIGHT_0'', PTuple [PInt 59, PInt 20]),
      (''PRIMER_INTERNAL_NUM_RETURNED'', PInt 2),
      (''PRIMER_INTERNAL_0_SEQUENCE'', PStr ''ACGT''),
      (''PRIMER_INTERNAL_0_TM'', PFloat 50),
      (''PRIMER_INTERNAL_0_GC_PERCENT'', PFloat 50),
      (''PRIMER_INTERNAL_0_PENALTY'', PFloat 1),
      (''PRIMER_INTERNAL_0'', PTuple [PInt 25, PInt 4]),
      (''PRIMER_INTERNAL_1_SEQUENCE'', PStr ''TTGCA''),
      (''PRIMER_INTERNAL_1_TM'', PFloat 48),
      (''PRIMER_INTERNAL_1_GC_PERCENT'', PFloat 40),
      (''PRIMER_INTERNAL_1_PENALTY'', PFloat 3),
      (''PRIMER_INTERNAL_1'', PTuple [PInt 31, PInt 5])]"

definition example_library :: library where
  "example_library task override = Inr example_results"

definition example_request :: PrimerDesignRequest where
  "example_request =
     \<lparr>sequence = replicate 60 CHR ''A'', primer_length = 20, gc_content = 50\<rparr>"

definition unchecked_request :: PrimerDesignRequest where
  "unchecked_request =
     \<lparr>sequence = replicate 50 CHR ''A'', primer_length = - 3, gc_content = 250\<rparr>"

definition example_response :: PrimerResponse where
  "example_response =
     \<lparr>left_primer =
         \<lparr>sequence_pd = ''GCTTGCATGCCTGCAGGTCG'', tm = 62.5,
            gc_percent = 60, penalty = 2.5, start = 0, length_pd = 20\<rparr>,
       right_primer =
         \<lparr>sequence_pd = ''CTACTAGAGGGAAACATCTG'', tm = 55,
            gc_percent = 45, penalty = 5, start = 59, length_pd = 20\<rparr>,
       internal_primers =
         [\<lparr>sequence_pd = ''ACGT'', tm = 50, gc_percent = 50, penalty = 1,
            start = 25, length_pd = 4\<rparr>,
          \<lparr>sequence_pd = ''TTGCA'', tm = 48, gc_percent = 40, penalty = 3,
            start = 31, length_pd = 5\<rparr>]\<rparr>"

text \<open>
  A routine with state: its world is the number of calls it has answered. It gives the
  reply above to the first call and raises on every later one, so a second call by the
  handler would show in the outcome as well as in the world.
\<close>

definition counting_routine :: "nat routine" where
  "counting_routine task override n =
     (if n = 0 then Inr example_results else Inl (OtherError ''called again''), Suc n)"




section \<open>Inversion of successful runs\<close>

lemma and_then_Inr_iff: "(and_then r f = Inr y) = (\<exists>x. r = Inr x \<and> f x = Inr y)"
  by (cases r) (simp_all add: and_then_def)

lemma validated_Inr_iff: "(validated r f = Inr y) = (\<exists>x. r = Some x \<and> f x = Inr y)"
  by (cases r) (simp_all add: validated_def)

lemma getitem_Inr_iff: "(getitem d k = Inr v) = (map_of d k = Some v)"
  by (simp add: getitem_def split: option.splits)




lemma PrimerDetail_init_Inr:
  assumes "PrimerDetail_init V s t g p st len = Inr d"
  shows "validate_str V s = Some (sequence_pd d) \<and> validate_float V t = Some (tm d)
    \<and> validate_float V g = Some (gc_percent d) \<and> validate_float V p = Some (penalty d)
    \<and> validate_int V st = Some (start d) \<and> validate_int V len = Some (length_pd d)"
  using assms by (auto simp: PrimerDetail_init_def validated_Inr_iff)



lemma extract_response_left:
  assumes "extract_response V r = Inr resp"
  shows "\<exists>s t g p pos st len.
      map_of r ''PRIMER_LEFT_0_SEQUENCE'' = Some s \<and> map_of r ''PRIMER_LEFT_0_TM'' = Some t
    \<and> map_of r ''PRIMER_LEFT_0_GC_PERCENT'' = Some g \<and> map_of r ''PRIMER_LEFT_0_PENALTY'' = Some p
    \<and> map_of r ''PRIMER_LEFT_0'' = Some pos \<and> subscript pos 0 = Inr st \<and> subscript pos 1 = Inr len
    \<and> PrimerDetail_init V s t g p st len = Inr (left_primer resp)"
  using assms
  by (auto simp: extract_response_def and_then_Inr_iff getitem_Inr_iff)

lemma extract_response_right:
  assumes "extract_response V r = Inr resp"
  shows "\<exists>s t g p pos st len.
      map_of r ''PRIMER_RIGHT_0_SEQUENCE'' = Some s \<and> map_of r ''PRIMER_RIGHT_0_TM'' = Some t
    \<and> map_of r ''PRIMER_RIGHT_0_GC_PERCENT'' = Some g \<and> map_of r ''PRIMER_RIGHT_0_PENALTY'' = Some p
    \<and> map_of r ''PRIMER_RIGHT_0'' = Some pos \<and> subscript pos 0 = Inr st \<and> subscript pos 1 = Inr len
    \<and> PrimerDetail_init V s t g p st len = Inr (right_primer resp)"
  using assms
  by (auto simp: extract_response_def and_then_Inr_iff getitem_Inr_iff)

lemma subscript_pair:
  assumes "subscript pos 0 = Inr st" and "subscript pos 1 = Inr len"
  shows "\<exists>xs. (pos = PTuple xs \<or> pos = PList xs
               \<or> (\<exists>cs. pos = PStr cs \<and> xs = map (\<lambda>c. PStr [c]) cs))
           \<and> 2 \<le> length xs \<and> st = xs ! 0 \<and> len = xs ! 1"
proof (cases pos)
  case (PTuple xs)
  with assms have "2 \<le> length xs \<and> st = xs ! 0 \<and> len = xs ! 1"
    by (auto split: if_splits)
  with PTuple show ?thesis by blast
next
  case (PList xs)
  with assms have "2 \<le> length xs \<and> st = xs ! 0 \<and> len = xs ! 1"
    by (auto split: if_splits)
  with PList show ?thesis by blast
next
  case (PStr cs)
  with assms have "2 \<le> length (map (\<lambda>c. PStr [c]) cs)
      \<and> st = map (\<lambda>c. PStr [c]) cs ! 0 \<and> len = map (\<lambda>c. PStr [c]) cs ! 1"
    by (auto split: if_splits)
  with PStr show ?thesis by blast
qed (use assms in simp_all)


lemma detail_from_values:
  assumes init: "PrimerDetail_init V s t g p st len = Inr d"
    and sub: "subscript pos 0 = Inr st" "subscript pos 1 = Inr len"
    and V: "keeps_typed_values V"
  shows "\<exists>xs. (pos = PTuple xs \<or> pos = PList xs
               \<or> (\<exists>cs. pos = PStr cs \<and> xs = map (\<lambda>c. PStr [c]) cs))
     \<and> 2 \<le> length xs
     \<and> validate_str V s = Some (sequence_pd d) \<and> (\<forall>x. s = PStr x \<longrightarrow> sequence_pd d = x)
     \<and> validate_float V t = Some (tm d) \<and> (\<forall>x. t = PFloat x \<longrightarrow> tm d = x)
     \<and> validate_float V g = Some (gc_percent d) \<and> (\<forall>x. g = PFloat x \<longrightarrow> gc_percent d = x)
     \<and> validate_float V p = Some (penalty d) \<and> (\<forall>x. p = PFloat x \<longrightarrow> penalty d = x)
     \<and> validate_int V (xs ! 0) = Some (start d) \<and> (\<forall>n. xs ! 0 = PInt n \<longrightarrow> start d = n)
     \<and> validate_int V (xs ! 1) = Some (length_pd d)
     \<and> (\<forall>n. xs ! 1 = PInt n \<longrightarrow> length_pd d = n)"
proof -
  from subscript_pair [OF sub] obtain xs where
    shape: "pos = PTuple xs \<or> pos = PList xs
               \<or> (\<exists>cs. pos = PStr cs \<and> xs = map (\<lambda>c. PStr [c]) cs)"
    and len: "2 \<le> length xs" and st: "st = xs ! 0" "len = xs ! 1"
    by blast
  from PrimerDetail_init_Inr [OF init] have
    f: "validate_str V s = Some (sequence_pd d)" "validate_float V t = Some (tm d)"
       "validate_float V g = Some (gc_percent d)" "validate_float V p = Some (penalty d)"
       "validate_int V (xs ! 0) = Some (start d)" "validate_int V (xs ! 1) = Some (length_pd d)"
    by (simp_all add: st)
  from f V have
    e: "\<forall>x. s = PStr x \<longrightarrow> sequence_pd d = x" "\<forall>x. t = PFloat x \<longrightarrow> tm d = x"
       "\<forall>x. g = PFloat x \<longrightarrow> gc_percent d = x" "\<forall>x. p = PFloat x \<longrightarrow> penalty d = x"
       "\<forall>n. xs ! 0 = PInt n \<longrightarrow> start d = n" "\<forall>n. xs ! 1 = PInt n \<longrightarrow> length_pd d = n"
    by (auto simp: keeps_typed_values_def)
  from shape len f e show ?thesis by blast
qed



lemma design_primer_eq:
  "design_primer V lib request =
     (if min_product_size request > max_product_size request
      then ([], Inl (ValueError (too_short_message (int (length (sequence request)))
                       (primer_length request))))
      else ([(primer_design_input request, override_input request)],
            and_then (lib (primer_design_input request) (override_input request))
              (extract_response V)))"
  by (simp add: design_primer_def design_primer_run_def logged_def stateless_def Let_def)

lemma design_primer_Inr:
  assumes "design_primer V lib request = (calls, Inr resp)"
  shows "calls = [(primer_design_input request, override_input request)]
     \<and> (\<exists>r. lib (primer_design_input request) (override_input request) = Inr r
            \<and> extract_response V r = Inr resp)"
  using assms
  by (auto simp: design_primer_eq and_then_Inr_iff split: if_splits)

lemma extract_example:
  "extract_response exact_validation example_results = Inr example_response"
  by (simp add: extract_response_def example_results_def
      and_then_def getitem_def range_py_def internal_detail_def internal_key_def
      str_nat.simps digit_char_def PrimerDetail_init_def validated_def exact_validation_def
      example_response_def upt_rec)

lemma example_run:
  "design_primer exact_validation example_library example_request
     = ([(primer_design_input example_request, override_input example_request)],
        Inr example_response)"
  by (simp add: design_primer_eq example_request_def example_library_def
      min_product_size_def max_product_size_def and_then_def extract_example)

lemma keeps_typed_exact: "keeps_typed_values exact_validation"
  by (simp add: keeps_typed_values_def exact_validation_def)

lemma design_primer_run_eq:
  "design_primer_run V routine request w =
     (if min_product_size request > max_product_size request
      then (Inl (ValueError (too_short_message (int (length (sequence request)))
                       (primer_length request))), w)
      else (and_then (fst (routine (primer_design_input request) (override_input request) w))
              (extract_response V),
            snd (routine (primer_design_input request) (override_input request) w)))"
  by (simp add: design_primer_run_def Let_def split: prod.splits)

lemma logged_eq:
  "logged routine task override (calls, w) =
     (fst (routine task override w), (calls @ [(task, override)], snd (routine task override w)))"
  by (simp add: logged_def split: prod.splits)



section \<open>Properties of the handler\<close>

text \<open>
  Claim C1. For a request with a sequence of length \<open>L\<close> and primer length \<open>P\<close>, the handler
  raises its value error with no call made to the library exactly when
  \<open>max (2 * P) 50 > L\<close>. The instance that follows is the request of length 50 with primer
  length 30, where the minimum product size 60 exceeds the maximum 50.
\<close>

theorem design_primer_value_error_iff:
  "(\<exists>msg. design_primer V lib request = ([], Inl (ValueError msg)))
     \<longleftrightarrow> max (2 * primer_length request) 50 > int (length (sequence request))"
  by (auto simp: design_primer_eq min_product_size_def max_product_size_def)

theorem design_primer_value_error_iff_witness:
  "max (2 * 30) 50 > int (length (replicate 50 CHR ''A''))
   \<and> (\<exists>msg. design_primer exact_validation example_library
         \<lparr>sequence = replicate 50 CHR ''A'', primer_length = 30, gc_content = 50\<rparr>
       = ([], Inl (ValueError msg)))"
  using design_primer_value_error_iff [of exact_validation example_library
      "\<lparr>sequence = replicate 50 CHR ''A'', primer_length = 30, gc_content = 50\<rparr>"]
  by simp

text \<open>
  Claim C2. The minimum product size is \<open>max (2 * P) 50\<close>, the maximum product size is the
  length \<open>L\<close> of the sequence, and a request that does not fail passes the one-element
  range list \<open>[(max (2 * P) 50, L)]\<close> to the external routine, in both of its arguments.
\<close>

theorem product_size_range_passed:
  "min_product_size request = max (2 * primer_length request) 50
   \<and> max_product_size request = int (length (sequence request))
   \<and> (max (2 * primer_length request) 50 \<le> int (length (sequence request)) \<longrightarrow>
       (\<exists>task override. fst (design_primer V lib request) = [(task, override)]
          \<and> map_of task ''PRIMER_PRODUCT_SIZE_RANGE''
              = Some (PList [PTuple [PInt (max (2 * primer_length request) 50),
                                     PInt (int (length (sequence request)))]])
          \<and> map_of override ''PRIMER_PRODUCT_SIZE_RANGE''
              = Some (PList [PTuple [PInt (max (2 * primer_length request) 50),
                                     PInt (int (length (sequence request)))]])))"
  by (auto simp: design_primer_eq min_product_size_def max_product_size_def
      primer_design_input_def override_input_def product_size_range_def mult.commute)

theorem product_size_range_passed_witness:
  "min_product_size example_request = 50 \<and> max_product_size example_request = 60
   \<and> (\<exists>task override.
         fst (design_primer exact_validation example_library example_request)
           = [(task, override)]
       \<and> map_of task ''PRIMER_PRODUCT_SIZE_RANGE'' = Some (PList [PTuple [PInt 50, PInt 60]])
       \<and> map_of override ''PRIMER_PRODUCT_SIZE_RANGE''
           = Some (PList [PTuple [PInt 50, PInt 60]]))"
  using product_size_range_passed [of example_request exact_validation example_library]
  by (simp add: example_request_def)

text \<open>
  Claim C3. A request that passes the guard makes one call with two dictionaries. In the
  first the optimal primer size is the primer length, the minimum is two less and the
  maximum two more, the template is the sequence, the included region is \<open>(0, L)\<close>, the
  optimal GC percent is the GC content and one result is asked for. In the second the
  minimum, the maximum and the optimal primer size are all the primer length.
\<close>

theorem library_parameter_dictionaries:
  assumes "max (2 * primer_length request) 50 \<le> int (length (sequence request))"
  shows "\<exists>task override. fst (design_primer V lib request) = [(task, override)]
    \<and> map_of task ''PRIMER_OPT_SIZE'' = Some (PInt (primer_length request))
    \<and> map_of task ''PRIMER_MIN_SIZE'' = Some (PInt (primer_length request - 2))
    \<and> map_of task ''PRIMER_MAX_SIZE'' = Some (PInt (primer_length request + 2))
    \<and> map_of task ''SEQUENCE_TEMPLATE'' = Some (PStr (sequence request))
    \<and> map_of task ''SEQUENCE_INCLUDED_REGION''
        = Some (PTuple [PInt 0, PInt (int (length (sequence request)))])
    \<and> map_of task ''PRIMER_OPT_GC_PERCENT'' = Some (PFloat (gc_content request))
    \<and> map_of task ''PRIMER_NUM_RETURN'' = Some (PInt 1)
    \<and> map fst task = [''SEQUENCE_TEMPLATE'', ''SEQUENCE_INCLUDED_REGION'',
         ''PRIMER_OPT_GC_PERCENT'', ''PRIMER_OPT_SIZE'', ''PRIMER_MIN_SIZE'',
         ''PRIMER_MAX_SIZE'', ''PRIMER_PRODUCT_SIZE_RANGE'', ''PRIMER_NUM_RETURN'']
    \<and> map_of override ''PRIMER_MIN_SIZE'' = Some (PInt (primer_length request))
    \<and> map_of override ''PRIMER_MAX_SIZE'' = Some (PInt (primer_length request))
    \<and> map_of override ''PRIMER_OPT_SIZE'' = Some (PInt (primer_length request))
    \<and> map fst override = [''PRIMER_OPT_SIZE'', ''PRIMER_MIN_SIZE'', ''PRIMER_MAX_SIZE'',
         ''PRIMER_OPT_GC_PERCENT'', ''PRIMER_PRODUCT_SIZE_RANGE'', ''PRIMER_NUM_RETURN'']"
  using assms
  by (auto simp: design_primer_eq min_product_size_def max_product_size_def
      primer_design_input_def override_input_def mult.commute)

theorem library_parameter_dictionaries_witness:
  "max (2 * 20) 50 \<le> int (length (replicate 60 CHR ''A''))
   \<and> (\<exists>task override.
         fst (design_primer exact_validation example_library example_request)
           = [(task, override)]
       \<and> map_of task ''PRIMER_OPT_SIZE'' = Some (PInt 20)
       \<and> map_of task ''PRIMER_MIN_SIZE'' = Some (PInt 18)
       \<and> map_of task ''PRIMER_MAX_SIZE'' = Some (PInt 22)
       \<and> map_of task ''SEQUENCE_TEMPLATE'' = Some (PStr (replicate 60 CHR ''A''))
       \<and> map_of task ''SEQUENCE_INCLUDED_REGION'' = Some (PTuple [PInt 0, PInt 60])
       \<and> map_of task ''PRIMER_OPT_GC_PERCENT'' = Some (PFloat 50)
       \<and> map_of task ''PRIMER_NUM_RETURN'' = Some (PInt 1)
       \<and> map_of override ''PRIMER_MIN_SIZE'' = Some (PInt 20)
       \<and> map_of override ''PRIMER_MAX_SIZE'' = Some (PInt 20)
       \<and> map_of override ''PRIMER_OPT_SIZE'' = Some (PInt 20))"
proof -
  have guard: "max (2 * primer_length example_request) 50
      \<le> int (length (sequence example_request))"
    by (simp add: example_request_def)
  from library_parameter_dictionaries [OF guard, of exact_validation example_library]
  obtain task override where
    "fst (design_primer exact_validation example_library example_request) = [(task, override)]"
    "map_of task ''PRIMER_OPT_SIZE'' = Some (PInt (primer_length example_request))"
    "map_of task ''PRIMER_MIN_SIZE'' = Some (PInt (primer_length example_request - 2))"
    "map_of task ''PRIMER_MAX_SIZE'' = Some (PInt (primer_length example_request + 2))"
    "map_of task ''SEQUENCE_TEMPLATE'' = Some (PStr (sequence example_request))"
    "map_of task ''SEQUENCE_INCLUDED_REGION''
        = Some (PTuple [PInt 0, PInt (int (length (sequence example_request)))])"
    "map_of task ''PRIMER_OPT_GC_PERCENT'' = Some (PFloat (gc_content example_request))"
    "map_of task ''PRIMER_NUM_RETURN'' = Some (PInt 1)"
    "map_of override ''PRIMER_MIN_SIZE'' = Some (PInt (primer_length example_request))"
    "map_of override ''PRIMER_MAX_SIZE'' = Some (PInt (primer_length example_request))"
    "map_of override ''PRIMER_OPT_SIZE'' = Some (PInt (primer_length example_request))"
    by blast
  then show ?thesis
    by (simp add: example_request_def)
qed

text \<open>
  Claim C4. A request that passes the guard calls the external routine exactly once, and
  a request that fails the guard never calls it. The calls are read off a logged routine,
  from any list of earlier calls and any world. Past the guard the list has grown by one
  entry, the call with the two dictionaries of the handler, and the world is the one that
  this single call of the routine has left, whatever the routine returns or raises. When
  the guard fails the list and the world are as they were before the run.
\<close>

theorem single_library_call:
  "(max (2 * primer_length request) 50 \<le> int (length (sequence request)) \<longrightarrow>
      snd (design_primer_run V (logged routine) request (calls, w))
        = (calls @ [(primer_design_input request, override_input request)],
           snd (routine (primer_design_input request) (override_input request) w))
      \<and> length (fst (snd (design_primer_run V (logged routine) request (calls, w))))
        = length calls + 1)
   \<and> (int (length (sequence request)) < max (2 * primer_length request) 50 \<longrightarrow>
      snd (design_primer_run V (logged routine) request (calls, w)) = (calls, w))"
  by (auto simp: design_primer_run_eq logged_eq min_product_size_def max_product_size_def
      mult.commute)

theorem single_library_call_witness:
  "max (2 * 20) 50 \<le> int (length (replicate 60 CHR ''A''))
   \<and> snd (design_primer_run exact_validation (logged counting_routine) example_request ([], 0))
       = ([(primer_design_input example_request, override_input example_request)], 1)
   \<and> length (fst (snd (design_primer_run exact_validation (logged counting_routine)
         example_request ([], 0)))) = 1
   \<and> int (length (replicate 50 CHR ''A'')) < max (2 * 30) 50
   \<and> snd (design_primer_run exact_validation (logged counting_routine)
        \<lparr>sequence = replicate 50 CHR ''A'', primer_length = 30, gc_content = 50\<rparr> ([], 0))
       = ([], 0)"
  using single_library_call [of example_request exact_validation counting_routine "[]" 0]
    single_library_call [of
      "\<lparr>sequence = replicate 50 CHR ''A'', primer_length = 30, gc_content = 50\<rparr>"
      exact_validation counting_routine "[]" 0]
  by (simp add: example_request_def counting_routine_def)




text \<open>
  Claim C6. In a successful run the two primers of the response are read off the reply of
  the library and off nothing else. The reply holds values under
  \<^verbatim>\<open>PRIMER_LEFT_0_SEQUENCE\<close>, \<^verbatim>\<open>PRIMER_LEFT_0_TM\<close>, \<^verbatim>\<open>PRIMER_LEFT_0_GC_PERCENT\<close> and
  \<^verbatim>\<open>PRIMER_LEFT_0_PENALTY\<close>, and under \<^verbatim>\<open>PRIMER_LEFT_0\<close> a tuple, a list or a string
  with at least two components. The sequence, melting temperature, GC percent and penalty
  of the left primer are what the validation reads from the first four values, its start
  and length what it reads from components 0 and 1 of the fifth; each field is equal to
  its value whenever that value has the type of the field, a string for the sequence, a
  float for the next three, an integer for start and length. The same holds of the right
  primer with the \<^verbatim>\<open>PRIMER_RIGHT_0\<close> keys.
\<close>

theorem response_is_projection:
  assumes run: "design_primer V lib request = (calls, Inr response)"
    and V: "keeps_typed_values V"
  shows "\<exists>results.
      calls = [(primer_design_input request, override_input request)]
    \<and> lib (primer_design_input request) (override_input request) = Inr results
    \<and> (\<exists>s t g p pos xs.
          map_of results ''PRIMER_LEFT_0_SEQUENCE'' = Some s
        \<and> map_of results ''PRIMER_LEFT_0_TM'' = Some t
        \<and> map_of results ''PRIMER_LEFT_0_GC_PERCENT'' = Some g
        \<and> map_of results ''PRIMER_LEFT_0_PENALTY'' = Some p
        \<and> map_of results ''PRIMER_LEFT_0'' = Some pos
        \<and> (pos = PTuple xs \<or> pos = PList xs
            \<or> (\<exists>cs. pos = PStr cs \<and> xs = map (\<lambda>c. PStr [c]) cs))
        \<and> 2 \<le> length xs
        \<and> validate_str V s = Some (sequence_pd (left_primer response))
        \<and> (\<forall>x. s = PStr x \<longrightarrow> sequence_pd (left_primer response) = x)
        \<and> validate_float V t = Some (tm (left_primer response))
        \<and> (\<forall>x. t = PFloat x \<longrightarrow> tm (left_primer response) = x)
        \<and> validate_float V g = Some (gc_percent (left_primer response))
        \<and> (\<forall>x. g = PFloat x \<longrightarrow> gc_percent (left_primer response) = x)
        \<and> validate_float V p = Some (penalty (left_primer response))
        \<and> (\<forall>x. p = PFloat x \<longrightarrow> penalty (left_primer response) = x)
        \<and> validate_int V (xs ! 0) = Some (start (left_primer response))
        \<and> (\<forall>n. xs ! 0 = PInt n \<longrightarrow> start (left_primer response) = n)
        \<and> validate_int V (xs ! 1) = Some (length_pd (left_primer response))
        \<and> (\<forall>n. xs ! 1 = PInt n \<longrightarrow> length_pd (left_primer response) = n))
    \<and> (\<exists>s t g p pos xs.
          map_of results ''PRIMER_RIGHT_0_SEQUENCE'' = Some s
        \<and> map_of results ''PRIMER_RIGHT_0_TM'' = Some t
        \<and> map_of results ''PRIMER_RIGHT_0_GC_PERCENT'' = Some g
        \<and> map_of results ''PRIMER_RIGHT_0_PENALTY'' = Some p
        \<and> map_of results ''PRIMER_RIGHT_0'' = Some pos
        \<and> (pos = PTuple xs \<or> pos = PList xs
            \<or> (\<exists>cs. pos = PStr cs \<and> xs = map (\<lambda>c. PStr [c]) cs))
        \<and> 2 \<le> length xs
        \<and> validate_str V s = Some (sequence_pd (right_primer response))
        \<and> (\<forall>x. s = PStr x \<longrightarrow> sequence_pd (right_primer response) = x)
        \<and> validate_float V t = Some (tm (right_primer response))
        \<and> (\<forall>x. t = PFloat x \<longrightarrow> tm (right_primer response) = x)
        \<and> validate_float V g = Some (gc_percent (right_primer response))
        \<and> (\<forall>x. g = PFloat x \<longrightarrow> gc_percent (right_primer response) = x)
        \<and> validate_float V p = Some (penalty (right_primer response))
        \<and> (\<forall>x. p = PFloat x \<longrightarrow> penalty (right_primer response) = x)
        \<and> validate_int V (xs ! 0) = Some (start (right_primer response))
        \<and> (\<forall>n. xs ! 0 = PInt n \<longrightarrow> start (right_primer response) = n)
        \<and> validate_int V (xs ! 1) = Some (length_pd (right_primer response))
        \<and> (\<forall>n. xs ! 1 = PInt n \<longrightarrow> length_pd (right_primer response) = n))"
proof -
  from design_primer_Inr [OF run] obtain results where
    calls: "calls = [(primer_design_input request, override_input request)]"
    and reply: "lib (primer_design_input request) (override_input request) = Inr results"
    and ex: "extract_response V results = Inr response"
    by blast
  from extract_response_left [OF ex] obtain s t g p pos st len where
    lk: "map_of results ''PRIMER_LEFT_0_SEQUENCE'' = Some s"
        "map_of results ''PRIMER_LEFT_0_TM'' = Some t"
        "map_of results ''PRIMER_LEFT_0_GC_PERCENT'' = Some g"
        "map_of results ''PRIMER_LEFT_0_PENALTY'' = Some p"
        "map_of results ''PRIMER_LEFT_0'' = Some pos"
    and ls: "subscript pos 0 = Inr st" "subscript pos 1 = Inr len"
    and li: "PrimerDetail_init V s t g p st len = Inr (left_primer response)"
    by blast
  from detail_from_values [OF li ls V] obtain xs where
    "(pos = PTuple xs \<or> pos = PList xs
            \<or> (\<exists>cs. pos = PStr cs \<and> xs = map (\<lambda>c. PStr [c]) cs))
        \<and> 2 \<le> length xs
        \<and> validate_str V s = Some (sequence_pd (left_primer response))
        \<and> (\<forall>x. s = PStr x \<longrightarrow> sequence_pd (left_primer response) = x)
        \<and> validate_float V t = Some (tm (left_primer response))
        \<and> (\<forall>x. t = PFloat x \<longrightarrow> tm (left_primer response) = x)
        \<and> validate_float V g = Some (gc_percent (left_primer response))
        \<and> (\<forall>x. g = PFloat x \<longrightarrow> gc_percent (left_primer response) = x)
        \<and> validate_float V p = Some (penalty (left_primer response))
        \<and> (\<forall>x. p = PFloat x \<longrightarrow> penalty (left_primer response) = x)
        \<and> validate_int V (xs ! 0) = Some (start (left_primer response))
        \<and> (\<forall>n. xs ! 0 = PInt n \<longrightarrow> start (left_primer response) = n)
        \<and> validate_int V (xs ! 1) = Some (length_pd (left_primer response))
        \<and> (\<forall>n. xs ! 1 = PInt n \<longrightarrow> length_pd (left_primer response) = n)"
    by (rule exE)
  with lk have left: "(\<exists>s t g p pos xs.
          map_of results ''PRIMER_LEFT_0_SEQUENCE'' = Some s
        \<and> map_of results ''PRIMER_LEFT_0_TM'' = Some t
        \<and> map_of results ''PRIMER_LEFT_0_GC_PERCENT'' = Some g
        \<and> map_of results ''PRIMER_LEFT_0_PENALTY'' = Some p
        \<and> map_of results ''PRIMER_LEFT_0'' = Some pos
        \<and> (pos = PTuple xs \<or> pos = PList xs
            \<or> (\<exists>cs. pos = PStr cs \<and> xs = map (\<lambda>c. PStr [c]) cs))
        \<and> 2 \<le> length xs
        \<and> validate_str V s = Some (sequence_pd (left_primer response))
        \<and> (\<forall>x. s = PStr x \<longrightarrow> sequence_pd (left_primer response) = x)
        \<and> validate_float V t = Some (tm (left_primer response))
        \<and> (\<forall>x. t = PFloat x \<longrightarrow> tm (left_primer response) = x)
        \<and> validate_float V g = Some (gc_percent (left_primer response))
        \<and> (\<forall>x. g = PFloat x \<longrightarrow> gc_percent (left_primer response) = x)
        \<and> validate_float V p = Some (penalty (left_primer response))
        \<and> (\<forall>x. p = PFloat x \<longrightarrow> penalty (left_primer response) = x)
        \<and> validate_int V (xs ! 0) = Some (start (left_primer response))
        \<and> (\<forall>n. xs ! 0 = PInt n \<longrightarrow> start (left_primer response) = n)
        \<and> validate_int V (xs ! 1) = Some (length_pd (left_primer response))
        \<and> (\<forall>n. xs ! 1 = PInt n \<longrightarrow> length_pd (left_primer response) = n))"
    by (intro exI conjI) (elim conjE, assumption)+
  from extract_response_right [OF ex] obtain s t g p pos st len where
    rk: "map_of results ''PRIMER_RIGHT_0_SEQUENCE'' = Some s"
        "map_of results ''PRIMER_RIGHT_0_TM'' = Some t"
        "map_of results ''PRIMER_RIGHT_0_GC_PERCENT'' = Some g"
        "map_of results ''PRIMER_RIGHT_0_PENALTY'' = Some p"
        "map_of results ''PRIMER_RIGHT_0'' = Some pos"
    and rs: "subscript pos 0 = Inr st" "subscript pos 1 = Inr len"
    and ri: "PrimerDetail_init V s t g p st len = Inr (right_primer response)"
    by blast
  from detail_from_values [OF ri rs V] obtain xs where
    "(pos = PTuple xs \<or> pos = PList xs
            \<or> (\<exists>cs. pos = PStr cs \<and> xs = map (\<lambda>c. PStr [c]) cs))
        \<and> 2 \<le> length xs
        \<and> validate_str V s = Some (sequence_pd (right_primer response))
        \<and> (\<forall>x. s = PStr x \<longrightarrow> sequence_pd (right_primer response) = x)
        \<and> validate_float V t = Some (tm (right_primer response))
        \<and> (\<forall>x. t = PFloat x \<longrightarrow> tm (right_primer response) = x)
        \<and> validate_float V g = Some (gc_percent (right_primer response))
        \<and> (\<forall>x. g = PFloat x \<longrightarrow> gc_percent (right_primer response) = x)
        \<and> validate_float V p = Some (penalty (right_primer response))
        \<and> (\<forall>x. p = PFloat x \<longrightarrow> penalty (right_primer response) = x)
        \<and> validate_int V (xs ! 0) = Some (start (right_primer response))
        \<and> (\<forall>n. xs ! 0 = PInt n \<longrightarrow> start (right_primer response) = n)
        \<and> validate_int V (xs ! 1) = Some (length_pd (right_primer response))
        \<and> (\<forall>n. xs ! 1 = PInt n \<longrightarrow> length_pd (right_primer response) = n)"
    by (rule exE)
  with rk have right: "(\<exists>s t g p pos xs.
          map_of results ''PRIMER_RIGHT_0_SEQUENCE'' = Some s
        \<and> map_of results ''PRIMER_RIGHT_0_TM'' = Some t
        \<and> map_of results ''PRIMER_RIGHT_0_GC_PERCENT'' = Some g
        \<and> map_of results ''PRIMER_RIGHT_0_PENALTY'' = Some p
        \<and> map_of results ''PRIMER_RIGHT_0'' = Some pos
        \<and> (pos = PTuple xs \<or> pos = PList xs
            \<or> (\<exists>cs. pos = PStr cs \<and> xs = map (\<lambda>c. PStr [c]) cs))
        \<and> 2 \<le> length xs
        \<and> validate_str V s = Some (sequence_pd (right_primer response))
        \<and> (\<forall>x. s = PStr x \<longrightarrow> sequence_pd (right_primer response) = x)
        \<and> validate_float V t = Some (tm (right_primer response))
        \<and> (\<forall>x. t = PFloat x \<longrightarrow> tm (right_primer response) = x)
        \<and> validate_float V g = Some (gc_percent (right_primer response))
        \<and> (\<forall>x. g = PFloat x \<longrightarrow> gc_percent (right_primer response) = x)
        \<and> validate_float V p = Some (penalty (right_primer response))
        \<and> (\<forall>x. p = PFloat x \<longrightarrow> penalty (right_primer response) = x)
        \<and> validate_int V (xs ! 0) = Some (start (right_primer response))
        \<and> (\<forall>n. xs ! 0 = PInt n \<longrightarrow> start (right_primer response) = n)
        \<and> validate_int V (xs ! 1) = Some (length_pd (right_primer response))
        \<and> (\<forall>n. xs ! 1 = PInt n \<longrightarrow> length_pd (right_primer response) = n))"
    by (intro exI conjI) (elim conjE, assumption)+
  from calls reply left right show ?thesis
    by (intro exI [of _ results] conjI) assumption+
qed

theorem response_is_projection_witness:
  "design_primer exact_validation example_library example_request
     = ([(primer_design_input example_request, override_input example_request)],
        Inr example_response)
   \<and> keeps_typed_values exact_validation
   \<and> example_library (primer_design_input example_request) (override_input example_request)
     = Inr example_results
   \<and> map_of example_results ''PRIMER_LEFT_0_SEQUENCE'' = Some (PStr (sequence_pd (left_primer example_response)))
   \<and> map_of example_results ''PRIMER_LEFT_0_TM'' = Some (PFloat (tm (left_primer example_response)))
   \<and> map_of example_results ''PRIMER_LEFT_0_GC_PERCENT'' = Some (PFloat (gc_percent (left_primer example_response)))
   \<and> map_of example_results ''PRIMER_LEFT_0_PENALTY'' = Some (PFloat (penalty (left_primer example_response)))
   \<and> map_of example_results ''PRIMER_LEFT_0''
       = Some (PTuple [PInt (start (left_primer example_response)), PInt (length_pd (left_primer example_response))])
   \<and> map_of example_results ''PRIMER_RIGHT_0_SEQUENCE'' = Some (PStr (sequence_pd (right_primer example_response)))
   \<and> map_of example_results ''PRIMER_RIGHT_0_TM'' = Some (PFloat (tm (right_primer example_response)))
   \<and> map_of example_results ''PRIMER_RIGHT_0_GC_PERCENT'' = Some (PFloat (gc_percent (right_primer example_response)))
   \<and> map_of example_results ''PRIMER_RIGHT_0_PENALTY'' = Some (PFloat (penalty (right_primer example_response)))
   \<and> map_of example_results ''PRIMER_RIGHT_0''
       = Some (PTuple [PInt (start (right_primer example_response)), PInt (length_pd (right_primer example_response))])"
proof -
  from response_is_projection [OF example_run keeps_typed_exact] obtain results where
    "example_library (primer_design_input example_request) (override_input example_request)
       = Inr results"
    by (elim exE conjE) (rule that)
  then have "results = example_results"
    by (simp add: example_library_def)
  with example_run keeps_typed_exact show ?thesis
    by (simp add: example_library_def example_results_def example_response_def)
qed

text \<open>
  Claim C8. The guard is the only check on the request. Whenever the sequence is at least
  \<open>max (2 * P) 50\<close> long the external routine is called with the GC content and the primer
  length exactly as given, whatever their values, and the outcome of the handler is the
  exception of the routine or what the extraction makes of its reply: no error comes from
  the request itself.
\<close>

theorem guard_is_only_validation:
  assumes "max (2 * primer_length request) 50 \<le> int (length (sequence request))"
  shows "design_primer V lib request
      = ([(primer_design_input request, override_input request)],
         and_then (lib (primer_design_input request) (override_input request))
           (extract_response V))
    \<and> map_of (primer_design_input request) ''PRIMER_OPT_GC_PERCENT''
        = Some (PFloat (gc_content request))
    \<and> map_of (override_input request) ''PRIMER_OPT_GC_PERCENT''
        = Some (PFloat (gc_content request))
    \<and> map_of (primer_design_input request) ''PRIMER_OPT_SIZE''
        = Some (PInt (primer_length request))
    \<and> map_of (override_input request) ''PRIMER_OPT_SIZE''
        = Some (PInt (primer_length request))"
  using assms
  by (auto simp: design_primer_eq min_product_size_def max_product_size_def
      primer_design_input_def override_input_def mult.commute)

theorem guard_is_only_validation_witness:
  "max (2 * (- 3)) 50 \<le> int (length (replicate 50 CHR ''A''))
   \<and> \<not> (0 \<le> gc_content unchecked_request \<and> gc_content unchecked_request \<le> 100)
   \<and> \<not> 0 < primer_length unchecked_request
   \<and> design_primer exact_validation example_library unchecked_request
       = ([(primer_design_input unchecked_request, override_input unchecked_request)],
          Inr example_response)
   \<and> map_of (primer_design_input unchecked_request) ''PRIMER_OPT_GC_PERCENT''
       = Some (PFloat 250)
   \<and> map_of (primer_design_input unchecked_request) ''PRIMER_OPT_SIZE'' = Some (PInt (- 3))"
proof -
  have guard: "max (2 * primer_length unchecked_request) 50
      \<le> int (length (sequence unchecked_request))"
    by (simp add: unchecked_request_def)
  from guard_is_only_validation [OF guard, of exact_validation example_library]
  show ?thesis
    by (simp add: unchecked_request_def example_library_def and_then_def extract_example)
qed

text \<open>
  Claim C9. A request whose sequence has fewer than 50 characters raises the value error,
  for every primer length, and makes no call to the library.
\<close>

theorem short_sequence_rejected:
  assumes "length (sequence request) < 50"
  shows "design_primer V lib request
    = ([], Inl (ValueError
         (too_short_message (int (length (sequence request))) (primer_length request))))"
  using assms
  by (simp add: design_primer_eq min_product_size_def max_product_size_def)

theorem short_sequence_rejected_witness:
  "length (replicate 49 CHR ''A'') < 50
   \<and> design_primer exact_validation example_library
        \<lparr>sequence = replicate 49 CHR ''A'', primer_length = - 7, gc_content = 50\<rparr>
     = ([], Inl (ValueError
          ''The sequence length 49 is too short for the requested primer length -7.''))"
  using short_sequence_rejected [of
      "\<lparr>sequence = replicate 49 CHR ''A'', primer_length = - 7, gc_content = 50\<rparr>"
      exact_validation example_library]
  by (simp add: too_short_message_def str_int_def str_nat.simps digit_char_def)

text \<open>
  Claim C10. The exception or response of the handler is determined by the request and by
  the reply to the one call the handler makes. Two runs on the same request may start in
  different worlds and meet different routines, even over different kinds of world: if the
  reply to the call with the handler's two dictionaries is the same in both, both runs
  raise the same exception or return the same response. When the guard fails, no reply is
  needed for that. Nothing of the world reaches the outcome except through that reply.
\<close>

theorem design_primer_deterministic:
  assumes "max (2 * primer_length request) 50 \<le> int (length (sequence request)) \<longrightarrow>
      fst (routine1 (primer_design_input request) (override_input request) w1)
        = fst (routine2 (primer_design_input request) (override_input request) w2)"
  shows "fst (design_primer_run V routine1 request w1)
       = fst (design_primer_run V routine2 request w2)"
  using assms
  by (auto simp: design_primer_run_eq min_product_size_def max_product_size_def mult.commute)

theorem design_primer_deterministic_witness:
  "max (2 * 20) 50 \<le> int (length (replicate 60 CHR ''A''))
   \<and> fst (stateless example_library (primer_design_input example_request)
          (override_input example_request) ())
       = fst (counting_routine (primer_design_input example_request)
          (override_input example_request) 0)
   \<and> fst (stateless example_library (primer_design_input example_request)
          (override_input example_request) ())
       \<noteq> fst (counting_routine (primer_design_input example_request)
          (override_input example_request) 1)
   \<and> fst (design_primer_run exact_validation (stateless example_library) example_request ())
       = fst (design_primer_run exact_validation counting_routine example_request 0)"
proof -
  have same: "fst (stateless example_library (primer_design_input example_request)
          (override_input example_request) ())
       = fst (counting_routine (primer_design_input example_request)
          (override_input example_request) 0)"
    by (simp add: stateless_def example_library_def counting_routine_def)
  have differ: "fst (stateless example_library (primer_design_input example_request)
          (override_input example_request) ())
       \<noteq> fst (counting_routine (primer_design_input example_request)
          (override_input example_request) 1)"
    by (simp add: stateless_def example_library_def counting_routine_def)
  have guard: "max (2 * 20) 50 \<le> int (length (replicate 60 CHR ''A''))"
    by simp
  have agree: "max (2 * primer_length example_request) 50
        \<le> int (length (sequence example_request)) \<longrightarrow>
      fst (stateless example_library (primer_design_input example_request)
          (override_input example_request) ())
       = fst (counting_routine (primer_design_input example_request)
          (override_input example_request) 0)"
    using same by simp
  from design_primer_deterministic [where request = example_request
      and ?routine1.0 = "stateless example_library" and ?w1.0 = "()"
      and ?routine2.0 = counting_routine and ?w2.0 = 0 and V = exact_validation, OF agree]
    same differ guard
  show ?thesis by blast
qed

end
